theory Spec2Isabelle
  imports Main
begin

section \<open>The session server of AARVIK-PDF-QA (src/server.py)\<close>

text \<open>
  The server keeps two pieces of state: the MongoDB collection \<open>db.sessions\<close> and the
  directories named \<open>faiss_index_\<close> plus the session identifier on local disk. Both are
  threaded through the handlers explicitly. A handler returns the value it returns in Python, or the exception
  it raises, together with the state it leaves behind.

  What the third-party libraries compute (PyPDF2, the text splitter, the embedding model,
  FAISS, the Gemini chain, the operating system) is not code of this repository: it enters
  the model as a parameter or as an outcome chosen by the environment. Logging has no
  effect on state or results and is left out. The calls \<open>find_one\<close>, \<open>insert_one\<close> and
  \<open>delete_one\<close> are taken to answer (the source has no handler for their failure);
  \<open>update_one\<close> sits inside a \<open>try\<close> block and may raise.
\<close>

subsection \<open>Exceptions and responses\<close>

datatype exn =
    HTTPException nat string
  | FileNotFoundError string
  | Exception string

datatype response = SessionId string | Message string | Answer string

text \<open>Decimal rendering of a status code, as an f-string prints an \<open>int\<close>.\<close>

fun str_nat :: "nat \<Rightarrow> string" where
  "str_nat n =
     (if n < 10 then [char_of (48 + n)]
      else str_nat (n div 10) @ [char_of (48 + n mod 10)])"

declare str_nat.simps [simp del]

text \<open>
  \<open>str(e)\<close>: Starlette's \<open>HTTPException.__str__\<close> prints the status code, a colon and the
  detail; any other exception prints its message.
\<close>

fun str_exn :: "exn \<Rightarrow> string" where
  "str_exn (HTTPException code detail) = str_nat code @ '': '' @ detail"
| "str_exn (FileNotFoundError msg) = msg"
| "str_exn (Exception msg) = msg"

text \<open>
  The status line the client sees: an \<open>HTTPException\<close> carries its own code, any other
  exception that leaves a handler is answered by the framework with 500, a returned value
  with 200.
\<close>

fun http_status :: "exn + 'a \<Rightarrow> nat" where
  "http_status (Inr _) = 200"
| "http_status (Inl (HTTPException code _)) = code"
| "http_status (Inl _) = 500"

subsection \<open>Strings\<close>

text \<open>
  \<open>str.endswith\<close> and \<open>str.strip\<close>. A \<open>char\<close> stands for a code point below 256; the
  white space of \<open>str.strip()\<close> in that range is 9 to 13, 28 to 32, 133 and 160.
\<close>

definition endswith :: "string \<Rightarrow> string \<Rightarrow> bool" where
  "endswith s suffix =
     (length suffix \<le> length s \<and> drop (length s - length suffix) s = suffix)"

definition isspace :: "char \<Rightarrow> bool" where
  "isspace c = ((of_char c :: nat) \<in> {9, 10, 11, 12, 13, 28, 29, 30, 31, 32, 133, 160})"

definition strip :: "string \<Rightarrow> string" where
  "strip s = rev (dropWhile isspace (rev (dropWhile isspace s)))"

subsection \<open>The session collection\<close>

text \<open>
  A document of \<open>db.sessions\<close>. \<open>create_session\<close> writes \<open>session_id\<close> and
  \<open>pdf_processed\<close>; \<open>pdf_name\<close> appears with the first successful upload. A field that
  a document may lack is an option, as \<open>session.get("pdf_processed", False)\<close> allows for.
\<close>

record session_doc =
  session_id :: string
  pdf_processed :: "bool option"
  pdf_name :: "string option"

text \<open>
  The collection is a sequence of documents: nothing in the source declares
  \<open>session_id\<close> unique, so the model does not either. The filter of every query is
  \<open>{"session_id": sid}\<close>; \<open>find_one\<close>, \<open>update_one\<close> and \<open>delete_one\<close> act on the first
  document that matches.
\<close>

fun find_one :: "session_doc list \<Rightarrow> string \<Rightarrow> session_doc option" where
  "find_one [] sid = None"
| "find_one (d # ds) sid = (if session_id d = sid then Some d else find_one ds sid)"

definition insert_one :: "session_doc list \<Rightarrow> session_doc \<Rightarrow> session_doc list" where
  "insert_one ds d = ds @ [d]"

text \<open>
  \<open>update_one(filter, {"$set": {"pdf_processed": True, "pdf_name": name}}, upsert=True)\<close>:
  without a match the upsert inserts the filter's field together with the fields set.
\<close>

fun update_one :: "session_doc list \<Rightarrow> string \<Rightarrow> string \<Rightarrow> session_doc list" where
  "update_one [] sid name =
     [\<lparr>session_id = sid, pdf_processed = Some True, pdf_name = Some name\<rparr>]"
| "update_one (d # ds) sid name =
     (if session_id d = sid
      then d\<lparr>pdf_processed := Some True, pdf_name := Some name\<rparr> # ds
      else d # update_one ds sid name)"

text \<open>\<open>delete_one\<close> returns \<open>deleted_count\<close> and the collection it leaves.\<close>

fun delete_one :: "session_doc list \<Rightarrow> string \<Rightarrow> nat \<times> session_doc list" where
  "delete_one [] sid = (0, [])"
| "delete_one (d # ds) sid =
     (if session_id d = sid then (1, ds)
      else (case delete_one ds sid of (n, ds') \<Rightarrow> (n, d # ds')))"

subsection \<open>Server state\<close>

text \<open>
  The disk maps a path to the vector index saved there. An index is represented by the
  chunk texts it was built from (\<open>FAISS.from_texts(texts, embeddings)\<close> stores every text
  beside its embedding); the embedding vectors themselves are not modelled.
  \<open>os.path.exists(p)\<close> is \<open>disk s p \<noteq> None\<close>.
\<close>

record server =
  sessions :: "session_doc list"
  disk :: "string \<rightharpoonup> string list"

definition index_path :: "string \<Rightarrow> string" where
  "index_path sid = ''faiss_index_'' @ sid"

subsection \<open>Ingestion: \<open>process_pdf\<close> and \<open>upload_pdf\<close>\<close>

text \<open>
  An uploaded file: its name, and what PyPDF2 makes of its bytes. \<open>PdfReader(file.file)\<close>
  raises (\<open>Inl\<close>) or gives the pages; \<open>page.extract_text()\<close> raises (\<open>Inl\<close>) or returns a
  string, \<open>None\<close> standing for a return value of \<open>None\<close>.
\<close>

type_synonym page = "string + string option"

record upload_file =
  filename :: string
  pdf :: "string + page list"

text \<open>
  What the libraries and the database do during one ingestion:
  \<^item> \<open>split_text chunk_size chunk_overlap text\<close> is
    \<open>RecursiveCharacterTextSplitter(chunk_size, chunk_overlap).split_text(text)\<close>;
  \<^item> \<open>from_texts_error\<close> is the exception of \<open>FAISS.from_texts\<close>, if it raises;
  \<^item> \<open>save_local\<close> completes, or raises and leaves something at the path
    (\<open>None\<close>: no directory);
  \<^item> \<open>update_one_error\<close> is the exception of \<open>db.sessions.update_one\<close>, if it raises.
\<close>

datatype save_result = Saved | SaveRaised string "string list option"

record ingest_env =
  split_text :: "nat \<Rightarrow> nat \<Rightarrow> string \<Rightarrow> string list"
  from_texts_error :: "string option"
  save_local :: save_result
  update_one_error :: "string option"

text \<open>The loop over \<open>pdf_reader.pages\<close>: \<open>text += page.extract_text() or ""\<close>.\<close>

fun extract_pages :: "page list \<Rightarrow> string \<Rightarrow> exn + string" where
  "extract_pages [] text = Inr text"
| "extract_pages (p # ps) text =
     (case p of
        Inl msg \<Rightarrow> Inl (Exception msg)
      | Inr extracted \<Rightarrow>
          extract_pages ps (text @ (case extracted of None \<Rightarrow> [] | Some t \<Rightarrow> t)))"

text \<open>The body of the \<open>try\<close> block of \<open>process_pdf\<close>.\<close>

definition process_pdf_try ::
  "ingest_env \<Rightarrow> server \<Rightarrow> upload_file \<Rightarrow> string \<Rightarrow> (exn + bool) \<times> server" where
  "process_pdf_try env s file sid =
     (case pdf file of
        Inl msg \<Rightarrow> (Inl (Exception msg), s)
      | Inr pages \<Rightarrow>
         (case extract_pages pages [] of
            Inl e \<Rightarrow> (Inl e, s)
          | Inr text \<Rightarrow>
             if strip text = []
             then (Inl (HTTPException 400 ''PDF contains no extractable text''), s)
             else
               let texts = split_text env 1000 200 text in
               (case from_texts_error env of
                  Some msg \<Rightarrow> (Inl (Exception msg), s)
                | None \<Rightarrow>
                   (case save_local env of
                      SaveRaised msg left \<Rightarrow>
                        (Inl (Exception msg), s\<lparr>disk := (disk s)(index_path sid := left)\<rparr>)
                    | Saved \<Rightarrow>
                       let s1 = s\<lparr>disk := (disk s)(index_path sid \<mapsto> texts)\<rparr> in
                       (case update_one_error env of
                          Some msg \<Rightarrow> (Inl (Exception msg), s1)
                        | None \<Rightarrow>
                           (Inr True,
                            s1\<lparr>sessions :=
                                 update_one (sessions s1) sid (filename file)\<rparr>))))))"

text \<open>\<open>except Exception as e\<close>: every exception of the body, an \<open>HTTPException\<close> too, is
  raised again as status 500.\<close>

definition process_pdf ::
  "ingest_env \<Rightarrow> server \<Rightarrow> upload_file \<Rightarrow> string \<Rightarrow> (exn + bool) \<times> server" where
  "process_pdf env s file sid =
     (case process_pdf_try env s file sid of
        (Inl e, s') \<Rightarrow> (Inl (HTTPException 500 (''Error processing PDF: '' @ str_exn e)), s')
      | (Inr ok, s') \<Rightarrow> (Inr ok, s'))"

text \<open>
  The handler of \<open>POST /api/upload_pdf\<close>. A document that \<open>find_one\<close> returns is a
  non-empty dictionary, so \<open>not session\<close> holds exactly when nothing was found.
\<close>

definition upload_pdf ::
  "ingest_env \<Rightarrow> server \<Rightarrow> string \<Rightarrow> upload_file \<Rightarrow> (exn + response) \<times> server" where
  "upload_pdf env s sid file =
     (if \<not> endswith (filename file) ''.pdf''
      then (Inl (HTTPException 400 ''File must be a PDF''), s)
      else
        (case find_one (sessions s) sid of
           None \<Rightarrow> (Inl (HTTPException 404 ''Session not found''), s)
         | Some session \<Rightarrow>
            (case process_pdf env s file sid of
               (Inl e, s') \<Rightarrow> (Inl e, s')
             | (Inr ok, s') \<Rightarrow>
                 (Inr (Message (''PDF uploaded and processed for session '' @ sid)), s'))))"

subsection \<open>Sessions: \<open>create_session\<close> and \<open>delete_session\<close>\<close>

text \<open>\<open>new_id\<close> is the value of \<open>str(uuid.uuid4())\<close>.\<close>

definition create_session :: "string \<Rightarrow> server \<Rightarrow> (exn + response) \<times> server" where
  "create_session new_id s =
     (Inr (SessionId new_id),
      s\<lparr>sessions :=
          insert_one (sessions s)
            \<lparr>session_id = new_id, pdf_processed = Some False, pdf_name = None\<rparr>\<rparr>)"

text \<open>
  \<open>shutil.rmtree(p)\<close>: a missing path raises \<open>FileNotFoundError\<close>; on a path that exists
  the operating system may still refuse (\<open>os_error\<close>, for instance a permission error),
  and then the directory stays. The result is the exception raised, if any, and the disk.
\<close>

definition rmtree ::
  "string option \<Rightarrow> (string \<rightharpoonup> string list) \<Rightarrow> string
     \<Rightarrow> exn option \<times> (string \<rightharpoonup> string list)" where
  "rmtree os_error dk p =
     (case dk p of
        None \<Rightarrow> (Some (FileNotFoundError p), dk)
      | Some index \<Rightarrow>
         (case os_error of
            Some msg \<Rightarrow> (Some (Exception msg), dk)
          | None \<Rightarrow> (None, dk(p := None))))"

definition delete_session ::
  "string option \<Rightarrow> server \<Rightarrow> string \<Rightarrow> (exn + response) \<times> server" where
  "delete_session os_error s sid =
     (case delete_one (sessions s) sid of
        (deleted_count, ds) \<Rightarrow>
          let s1 = s\<lparr>sessions := ds\<rparr> in
          if deleted_count = 0
          then (Inl (HTTPException 404 ''Session not found''), s1)
          else
            (case rmtree os_error (disk s1) (index_path sid) of
               (None, dk) \<Rightarrow>
                 (Inr (Message (''Session '' @ sid @ '' deleted'')), s1\<lparr>disk := dk\<rparr>)
             | (Some e, dk) \<Rightarrow>
                (case e of
                   FileNotFoundError path \<Rightarrow>
                     (Inr (Message (''Session '' @ sid @ '' deleted'')), s1\<lparr>disk := dk\<rparr>)
                 | HTTPException code detail \<Rightarrow> (Inl e, s1\<lparr>disk := dk\<rparr>)
                 | Exception msg \<Rightarrow> (Inl e, s1\<lparr>disk := dk\<rparr>))))"

subsection \<open>Query: \<open>ask_question\<close>\<close>

text \<open>The request body, the pydantic model \<open>Question\<close>.\<close>

record question_body =
  q_session_id :: string
  q_question :: string

text \<open>
  \<open>load_local_error\<close> is the exception of \<open>FAISS.load_local\<close>, if it raises;
  \<open>qa_invoke index query\<close> is what the retrieval chain built on the loaded index answers
  to the query, or the message of the exception it raises (\<open>Inl\<close>).
\<close>

record ask_env =
  load_local_error :: "string option"
  qa_invoke :: "string list \<Rightarrow> string \<Rightarrow> string + string"

text \<open>The body of the \<open>try\<close> block of \<open>ask_question\<close>.\<close>

definition ask_question_try :: "ask_env \<Rightarrow> server \<Rightarrow> question_body \<Rightarrow> exn + response" where
  "ask_question_try env s question =
     (case disk s (index_path (q_session_id question)) of
        None \<Rightarrow> Inl (HTTPException 404 ''FAISS index not found'')
      | Some index \<Rightarrow>
         (case load_local_error env of
            Some msg \<Rightarrow> Inl (Exception msg)
          | None \<Rightarrow>
             (case qa_invoke env index (q_question question) of
                Inl msg \<Rightarrow> Inl (Exception msg)
              | Inr result \<Rightarrow> Inr (Answer result))))"

definition ask_question :: "ask_env \<Rightarrow> server \<Rightarrow> question_body \<Rightarrow> exn + response" where
  "ask_question env s question =
     (case find_one (sessions s) (q_session_id question) of
        None \<Rightarrow> Inl (HTTPException 404 ''Session not found'')
      | Some session \<Rightarrow>
         if \<not> (case pdf_processed session of None \<Rightarrow> False | Some b \<Rightarrow> b)
         then Inl (HTTPException 404 ''No PDF processed for this session'')
         else
           (case ask_question_try env s question of
              Inl e \<Rightarrow> Inl (HTTPException 500 (''Error answering question: '' @ str_exn e))
            | Inr answer \<Rightarrow> Inr answer))"

subsection \<open>Requests\<close>



subsection \<open>The consistency of collection and disk\<close>


text \<open>No two documents carry the same \<open>session_id\<close>.\<close>

definition unique_ids :: "server \<Rightarrow> bool" where
  "unique_ids s = distinct (map session_id (sessions s))"


subsection \<open>Concrete scenarios\<close>

text \<open>An empty collection on an empty disk, and the server after one session was created.\<close>

definition server_init :: server where
  "server_init = \<lparr>sessions = [], disk = Map.empty\<rparr>"

definition server_created :: server where
  "server_created = snd (create_session ''s1'' server_init)"

text \<open>An environment in which every library call succeeds; the splitter is a stand-in
  that cuts the text into pieces of \<open>chunk_size\<close> characters, without overlap.\<close>

fun chop :: "nat \<Rightarrow> nat \<Rightarrow> string \<Rightarrow> string list" where
  "chop chunk_size chunk_overlap t =
     (if chunk_size = 0 \<or> length t \<le> chunk_size then [t]
      else take chunk_size t # chop chunk_size chunk_overlap (drop chunk_size t))"

declare chop.simps [simp del]

definition env_ok :: ingest_env where
  "env_ok = \<lparr>split_text = chop, from_texts_error = None, save_local = Saved,
             update_one_error = None\<rparr>"


text \<open>A three-page document whose second page has no text, and a scan without any text.\<close>

definition doc_pdf :: upload_file where
  "doc_pdf =
     \<lparr>filename = ''doc.pdf'',
      pdf = Inr [Inr (Some ''The capital of Freedonia ''), Inr None, Inr (Some ''is Lastonia.'')]\<rparr>"

definition scan_pdf :: upload_file where
  "scan_pdf = \<lparr>filename = ''scan.pdf'', pdf = Inr [Inr None, Inr (Some '' '')]\<rparr>"

definition notes_txt :: upload_file where
  "notes_txt = \<lparr>filename = ''notes.txt'', pdf = Inl ''not a PDF''\<rparr>"

text \<open>The server after \<open>doc_pdf\<close> was ingested into session \<open>s1\<close>.\<close>

definition server_processed :: server where
  "server_processed = snd (upload_pdf env_ok server_created ''s1'' doc_pdf)"

text \<open>A processed session whose index directory has gone from the disk.\<close>

definition server_index_lost :: server where
  "server_index_lost = server_processed\<lparr>disk := Map.empty\<rparr>"

definition ask_ok :: ask_env where
  "ask_ok = \<lparr>load_local_error = None, qa_invoke = (\<lambda>index query. Inr (concat index))\<rparr>"

definition capital_question :: question_body where
  "capital_question =
     \<lparr>q_session_id = ''s1'', q_question = ''What is the capital of Freedonia?''\<rparr>"

text \<open>
  A splitter stand-in that records the two settings it is run with in front of the text,
  and the environment that uses it.
\<close>

definition tag_split :: "nat \<Rightarrow> nat \<Rightarrow> string \<Rightarrow> string list" where
  "tag_split chunk_size chunk_overlap t = [str_nat chunk_size, str_nat chunk_overlap, t]"

definition env_tag :: ingest_env where
  "env_tag = env_ok\<lparr>split_text := tag_split\<rparr>"

text \<open>
  A splitter that agrees with \<open>chop\<close> at chunk size 1000 and overlap 200 and answers with a
  marker at every other setting.
\<close>

definition chop_marked :: "nat \<Rightarrow> nat \<Rightarrow> string \<Rightarrow> string list" where
  "chop_marked chunk_size chunk_overlap t =
     (if chunk_size = 1000 \<and> chunk_overlap = 200 then chop chunk_size chunk_overlap t
      else [''another setting''])"

section \<open>Properties\<close>

subsection \<open>Auxiliary facts\<close>

lemma dropWhile_all_Nil:
  assumes "\<forall>x\<in>set (dropWhile P xs). P x"
  shows "dropWhile P xs = []"
proof (rule ccontr)
  assume ne: "dropWhile P xs \<noteq> []"
  then have "\<not> P (hd (dropWhile P xs))" by (rule hd_dropWhile)
  moreover have "hd (dropWhile P xs) \<in> set (dropWhile P xs)" using ne by (rule hd_in_set)
  ultimately show False using assms by blast
qed

lemma strip_empty_iff: "strip s = [] \<longleftrightarrow> (\<forall>c\<in>set s. isspace c)"
proof
  assume "strip s = []"
  then have "dropWhile isspace (rev (dropWhile isspace s)) = []"
    unfolding strip_def by (simp only: rev_is_Nil_conv)
  then have "\<forall>x\<in>set (rev (dropWhile isspace s)). isspace x"
    by (simp only: dropWhile_eq_Nil_conv)
  then have "\<forall>x\<in>set (dropWhile isspace s). isspace x"
    by (simp only: set_rev)
  then have "dropWhile isspace s = []" by (rule dropWhile_all_Nil)
  then show "\<forall>c\<in>set s. isspace c" by (simp only: dropWhile_eq_Nil_conv)
next
  assume "\<forall>c\<in>set s. isspace c"
  then have e: "dropWhile isspace s = []" by (simp only: dropWhile_eq_Nil_conv)
  show "strip s = []" by (simp only: strip_def e rev.simps dropWhile.simps)
qed

lemma extract_pages_append:
  "extract_pages (map Inr extracted) acc =
     Inr (acc @ concat (map (\<lambda>e. case e of None \<Rightarrow> [] | Some t \<Rightarrow> t) extracted))"
  by (induction extracted arbitrary: acc) simp_all

lemma str_nat_400: "str_nat 400 = ''400''"
  by code_simp

lemma str_nat_404: "str_nat 404 = ''404''"
  by code_simp

lemma endswith_scan: "endswith ''scan.pdf'' ''.pdf''"
  by (simp add: endswith_def)

lemma endswith_doc: "endswith ''doc.pdf'' ''.pdf''"
  by (simp add: endswith_def)

lemma endswith_notes: "\<not> endswith ''notes.txt'' ''.pdf''"
  by (simp add: endswith_def)

lemma isspace_blank: "isspace CHR '' ''"
  by (simp add: isspace_def)

lemma strip_blank: "strip '' '' = []"
  by (simp add: strip_def isspace_blank)

lemma server_created_eq:
  "server_created =
     \<lparr>sessions = [\<lparr>session_id = ''s1'', pdf_processed = Some False, pdf_name = None\<rparr>],
      disk = Map.empty\<rparr>"
  by (simp add: server_created_def server_init_def create_session_def insert_one_def)

lemma doc_text_not_blank: "strip ''The capital of Freedonia is Lastonia.'' \<noteq> []"
  by (simp add: strip_def isspace_def)

lemma chop_doc:
  "chop 1000 200 ''The capital of Freedonia is Lastonia.'' = [''The capital of Freedonia is Lastonia.'']"
  by (simp add: chop.simps)

lemma upload_doc_ok:
  "upload_pdf env_ok server_created ''s1'' doc_pdf =
     (Inr (Message ''PDF uploaded and processed for session s1''),
      \<lparr>sessions = [\<lparr>session_id = ''s1'', pdf_processed = Some True, pdf_name = Some ''doc.pdf''\<rparr>],
       disk = [''faiss_index_s1'' \<mapsto> [''The capital of Freedonia is Lastonia.'']]\<rparr>)"
  using doc_text_not_blank
  by (simp add: upload_pdf_def process_pdf_def process_pdf_try_def server_created_eq doc_pdf_def
      env_ok_def endswith_doc chop_doc index_path_def)

lemma server_processed_eq:
  "server_processed =
     \<lparr>sessions = [\<lparr>session_id = ''s1'', pdf_processed = Some True, pdf_name = Some ''doc.pdf''\<rparr>],
      disk = [''faiss_index_s1'' \<mapsto> [''The capital of Freedonia is Lastonia.'']]\<rparr>"
  by (simp add: server_processed_def upload_doc_ok)

subsection \<open>Uploads\<close>

text \<open>
  Claim C10. An upload whose file name does not end in \<open>.pdf\<close> is answered with
  400 "File must be a PDF" whatever the session identifier is: the check of the extension
  comes before the lookup of the session, so an unknown session gets this 400 and not a
  404. The state is left as it was.
\<close>

theorem upload_rejects_other_extensions_first:
  assumes "\<not> endswith (filename file) ''.pdf''"
  shows "upload_pdf env s sid file = (Inl (HTTPException 400 ''File must be a PDF''), s)"
  using assms by (simp add: upload_pdf_def)

theorem upload_rejects_other_extensions_first_witness:
  "\<not> endswith (filename notes_txt) ''.pdf'' \<and>
   find_one (sessions server_init) ''nope'' = None \<and>
   upload_pdf env_ok server_init ''nope'' notes_txt =
     (Inl (HTTPException 400 ''File must be a PDF''), server_init)"
  using upload_rejects_other_extensions_first [of notes_txt env_ok server_init "''nope''"]
  by (simp add: notes_txt_def endswith_notes server_init_def)

subsection \<open>Queries\<close>

text \<open>
  Claim C4. A query for a session identifier that no document carries fails with
  "Session not found"; a query for a session whose document is not marked processed fails
  with "No PDF processed for this session". Both carry status 404, and the two errors
  differ in their detail.
\<close>

theorem ask_unknown_and_unprocessed_differ:
  "(find_one (sessions s) (q_session_id question) = None \<longrightarrow>
      ask_question env s question = Inl (HTTPException 404 ''Session not found'')) \<and>
   (find_one (sessions s) (q_session_id question) = Some session \<longrightarrow>
    pdf_processed session \<noteq> Some True \<longrightarrow>
      ask_question env s question = Inl (HTTPException 404 ''No PDF processed for this session'')) \<and>
   HTTPException 404 ''Session not found'' \<noteq> HTTPException 404 ''No PDF processed for this session''"
  by (auto simp: ask_question_def split: option.splits)

theorem ask_unknown_and_unprocessed_differ_witness:
  "find_one (sessions server_init) (q_session_id capital_question) = None \<and>
   ask_question ask_ok server_init capital_question = Inl (HTTPException 404 ''Session not found'') \<and>
   find_one (sessions server_created) (q_session_id capital_question) =
     Some \<lparr>session_id = ''s1'', pdf_processed = Some False, pdf_name = None\<rparr> \<and>
   ask_question ask_ok server_created capital_question =
     Inl (HTTPException 404 ''No PDF processed for this session'')"
  using ask_unknown_and_unprocessed_differ
      [where s = server_init and question = capital_question and env = ask_ok]
    ask_unknown_and_unprocessed_differ
      [where s = server_created and question = capital_question and env = ask_ok
         and session = "\<lparr>session_id = ''s1'', pdf_processed = Some False, pdf_name = None\<rparr>"]
  by (simp add: server_init_def server_created_eq capital_question_def)

subsection \<open>Uploads without text\<close>

lemma process_pdf_no_text:
  assumes "pdf file = Inr pages" and "extract_pages pages [] = Inr t" and "strip t = []"
  shows "process_pdf env s file sid =
           (Inl (HTTPException 500
                  ''Error processing PDF: 400: PDF contains no extractable text''), s)"
  using assms by (simp add: process_pdf_def process_pdf_try_def str_nat_400)

lemma find_one_created: "find_one (sessions server_created) ''s1'' =
  Some \<lparr>session_id = ''s1'', pdf_processed = Some False, pdf_name = None\<rparr>"
  by (simp add: server_created_eq)

lemma upload_pdf_no_text:
  assumes "endswith (filename file) ''.pdf''" and "find_one (sessions s) sid = Some session"
    and "pdf file = Inr pages" and "extract_pages pages [] = Inr t" and "strip t = []"
  shows "upload_pdf env s sid file =
           (Inl (HTTPException 500
                  ''Error processing PDF: 400: PDF contains no extractable text''), s)"
  using assms(1,2) process_pdf_no_text [OF assms(3,4,5), of env s sid]
  by (simp add: upload_pdf_def)

text \<open>
  Claim C1 says that an upload whose pages give only white space is answered with the
  client error 400. The source raises that \<open>HTTPException(status_code=400)\<close> inside the
  \<open>try\<close> block of \<open>process_pdf\<close>, whose \<open>except Exception\<close> catches it and raises status
  500 in its place. Evaluated on a scan without text, uploaded to an existing session:
  the answer is 500, with the intended 400 quoted in its detail.
\<close>

theorem upload_without_text_is_answered_500:
  "upload_pdf env_ok server_created ''s1'' scan_pdf =
     (Inl (HTTPException 500 ''Error processing PDF: 400: PDF contains no extractable text''),
      server_created) \<and>
   http_status (fst (upload_pdf env_ok server_created ''s1'' scan_pdf)) = 500"
proof -
  have "upload_pdf env_ok server_created ''s1'' scan_pdf =
          (Inl (HTTPException 500
                 ''Error processing PDF: 400: PDF contains no extractable text''),
           server_created)"
    by (rule upload_pdf_no_text
          [where pages = "[Inr None, Inr (Some '' '')]" and t = "'' ''", OF _ find_one_created])
       (simp_all add: scan_pdf_def endswith_scan strip_blank)
  then show ?thesis by simp
qed

text \<open>
  Claim C6. When every page of the PDF is read and the concatenated text is empty or
  white space only, the upload fails and leaves the state as it was: no document of the
  collection changes (\<open>pdf_processed\<close> and \<open>pdf_name\<close> stay), and nothing is written to
  the disk.
\<close>

theorem upload_without_text_changes_nothing:
  assumes "pdf file = Inr pages" and "extract_pages pages [] = Inr t"
    and "\<forall>c\<in>set t. isspace c"
  shows "isl (fst (upload_pdf env s sid file)) \<and> snd (upload_pdf env s sid file) = s"
proof -
  have "strip t = []" using assms(3) by (simp only: strip_empty_iff)
  then have "process_pdf env s file sid =
      (Inl (HTTPException 500 ''Error processing PDF: 400: PDF contains no extractable text''), s)"
    using assms(1,2) by (rule process_pdf_no_text [rotated 2])
  then show ?thesis
    by (simp add: upload_pdf_def split: option.splits)
qed

theorem upload_without_text_changes_nothing_witness:
  "pdf scan_pdf = Inr [Inr None, Inr (Some '' '')] \<and>
   extract_pages [Inr None, Inr (Some '' '')] [] = Inr '' '' \<and>
   list_all isspace '' '' \<and>
   isl (fst (upload_pdf env_ok server_created ''s1'' scan_pdf)) \<and>
   snd (upload_pdf env_ok server_created ''s1'' scan_pdf) = server_created \<and>
   sessions server_created =
     [\<lparr>session_id = ''s1'', pdf_processed = Some False, pdf_name = None\<rparr>] \<and>
   disk server_created (index_path ''s1'') = None"
  using upload_without_text_changes_nothing
    [of scan_pdf "[Inr None, Inr (Some '' '')]" "'' ''" env_ok server_created "''s1''"]
  by (simp add: scan_pdf_def isspace_blank server_created_eq)

subsection \<open>What the splitter is given\<close>

lemma process_pdf_success:
  assumes "fst (process_pdf env s file sid) = Inr ok" and "pdf file = Inr pages"
  shows "\<exists>t. extract_pages pages [] = Inr t \<and> strip t \<noteq> [] \<and>
           save_local env = Saved \<and> update_one_error env = None \<and>
           snd (process_pdf env s file sid) =
             \<lparr>sessions = update_one (sessions s) sid (filename file),
              disk = (disk s)(index_path sid \<mapsto> split_text env 1000 200 t)\<rparr>"
  using assms
  by (auto simp: process_pdf_def process_pdf_try_def Let_def
      split: sum.splits option.splits save_result.splits if_splits prod.splits)

lemma upload_pdf_success:
  assumes "fst (upload_pdf env s sid file) = Inr r" and "pdf file = Inr pages"
  shows "\<exists>t. extract_pages pages [] = Inr t \<and> strip t \<noteq> [] \<and>
           save_local env = Saved \<and> update_one_error env = None \<and>
           snd (upload_pdf env s sid file) =
             \<lparr>sessions = update_one (sessions s) sid (filename file),
              disk = (disk s)(index_path sid \<mapsto> split_text env 1000 200 t)\<rparr>"
proof -
  from assms(1) obtain ok where ok: "fst (process_pdf env s file sid) = Inr ok"
    and same: "snd (upload_pdf env s sid file) = snd (process_pdf env s file sid)"
    by (auto simp: upload_pdf_def split: if_splits option.splits sum.splits prod.splits)
  from process_pdf_success [OF ok assms(2)] same show ?thesis by simp
qed

lemma doc_pdf_pages:
  "pdf doc_pdf = Inr (map Inr [Some ''The capital of Freedonia '', None, Some ''is Lastonia.''])"
  by (simp add: doc_pdf_def)

text \<open>
  Claim C8. The loop over the pages builds the concatenation of the pages' texts in page
  order, a page without text adding the empty string; and this concatenation is the text
  given to the splitter: after a successful upload the index saved for the session holds
  the splitter's chunks of exactly that text.
\<close>

theorem splitter_receives_pages_in_order:
  "extract_pages (map Inr extracted) [] =
     Inr (concat (map (\<lambda>e. case e of None \<Rightarrow> [] | Some t \<Rightarrow> t) extracted)) \<and>
   (pdf file = Inr (map Inr extracted) \<longrightarrow>
    fst (upload_pdf env s sid file) = Inr r \<longrightarrow>
      disk (snd (upload_pdf env s sid file)) (index_path sid) =
        Some (split_text env 1000 200
               (concat (map (\<lambda>e. case e of None \<Rightarrow> [] | Some t \<Rightarrow> t) extracted))))"
proof (intro conjI impI)
  show loop: "extract_pages (map Inr extracted) [] =
     Inr (concat (map (\<lambda>e. case e of None \<Rightarrow> [] | Some t \<Rightarrow> t) extracted))"
    by (simp add: extract_pages_append)
  assume "pdf file = Inr (map Inr extracted)" and "fst (upload_pdf env s sid file) = Inr r"
  from upload_pdf_success [OF this(2) this(1)] loop
  show "disk (snd (upload_pdf env s sid file)) (index_path sid) =
        Some (split_text env 1000 200
               (concat (map (\<lambda>e. case e of None \<Rightarrow> [] | Some t \<Rightarrow> t) extracted)))"
    by auto
qed

theorem splitter_receives_pages_in_order_witness:
  "extract_pages (map Inr [Some ''The capital of Freedonia '', None, Some ''is Lastonia.'']) [] =
     Inr ''The capital of Freedonia is Lastonia.'' \<and>
   pdf doc_pdf = Inr (map Inr [Some ''The capital of Freedonia '', None, Some ''is Lastonia.'']) \<and>
   fst (upload_pdf env_ok server_created ''s1'' doc_pdf) =
     Inr (Message ''PDF uploaded and processed for session s1'') \<and>
   disk (snd (upload_pdf env_ok server_created ''s1'' doc_pdf)) (index_path ''s1'') =
     Some (split_text env_ok 1000 200 ''The capital of Freedonia is Lastonia.'')"
  using splitter_receives_pages_in_order
    [of "[Some ''The capital of Freedonia '', None, Some ''is Lastonia.'']" doc_pdf env_ok
        server_created "''s1''" "Message ''PDF uploaded and processed for session s1''"]
  by (simp add: upload_doc_ok doc_pdf_pages)

lemma env_ok_split_text: "split_text env_ok = chop"
  by (simp add: env_ok_def)

lemma str_nat_1000: "str_nat 1000 = ''1000''"
  by code_simp

lemma str_nat_200: "str_nat 200 = ''200''"
  by code_simp

lemma upload_doc_tag:
  "upload_pdf env_tag server_created ''s1'' doc_pdf =
     (Inr (Message ''PDF uploaded and processed for session s1''),
      \<lparr>sessions = [\<lparr>session_id = ''s1'', pdf_processed = Some True, pdf_name = Some ''doc.pdf''\<rparr>],
       disk = [''faiss_index_s1'' \<mapsto>
                 [''1000'', ''200'', ''The capital of Freedonia is Lastonia.'']]\<rparr>)"
  using doc_text_not_blank
  by (simp add: upload_pdf_def process_pdf_def process_pdf_try_def server_created_eq doc_pdf_def
      env_tag_def env_ok_def endswith_doc tag_split_def str_nat_1000 str_nat_200 index_path_def)

lemma env_tag_split_text: "split_text env_tag = tag_split"
  by (simp add: env_tag_def)

lemma chop_marked_default: "chop_marked 1000 200 u = chop 1000 200 u"
  by (simp add: chop_marked_def)

lemma doc_pdf_text:
  "extract_pages [Inr (Some ''The capital of Freedonia ''), Inr None, Inr (Some ''is Lastonia.'')] [] =
     Inr ''The capital of Freedonia is Lastonia.''"
  by simp

lemma doc_pdf_eq:
  "pdf doc_pdf =
     Inr [Inr (Some ''The capital of Freedonia ''), Inr None, Inr (Some ''is Lastonia.'')]"
  by (simp add: doc_pdf_def)

text \<open>
  Claim C9, as amended. Ingestion always runs the splitter with chunk size 1000 and chunk
  overlap 200: the index saved by a successful upload holds the splitter's output on the
  extracted text at exactly these two settings, and what the splitter would do at any
  other setting has no influence on an upload. The two numbers are literals in
  \<open>process_pdf\<close>; nothing an upload receives, and no configuration the server reads,
  changes them.
\<close>

theorem splitter_runs_at_1000_and_200:
  "(pdf file = Inr pages \<longrightarrow> extract_pages pages [] = Inr t \<longrightarrow>
    fst (upload_pdf env s sid file) = Inr r \<longrightarrow>
      disk (snd (upload_pdf env s sid file)) (index_path sid) =
        Some (split_text env 1000 200 t)) \<and>
   ((\<forall>u. sp 1000 200 u = split_text env 1000 200 u) \<longrightarrow>
      upload_pdf (env\<lparr>split_text := sp\<rparr>) s sid file = upload_pdf env s sid file)"
proof (intro conjI impI)
  assume pages: "pdf file = Inr pages" and t: "extract_pages pages [] = Inr t"
    and ok: "fst (upload_pdf env s sid file) = Inr r"
  from upload_pdf_success [OF ok pages] t
  show "disk (snd (upload_pdf env s sid file)) (index_path sid) =
          Some (split_text env 1000 200 t)"
    by auto
next
  assume "\<forall>u. sp 1000 200 u = split_text env 1000 200 u"
  then have "process_pdf_try (env\<lparr>split_text := sp\<rparr>) s file sid = process_pdf_try env s file sid"
    by (simp add: process_pdf_try_def split: sum.splits option.splits save_result.splits)
  then have same: "process_pdf (env\<lparr>split_text := sp\<rparr>) s file sid = process_pdf env s file sid"
    by (simp add: process_pdf_def)
  show "upload_pdf (env\<lparr>split_text := sp\<rparr>) s sid file = upload_pdf env s sid file"
    unfolding upload_pdf_def same by (rule refl)
qed

theorem splitter_runs_at_1000_and_200_witness:
  "pdf doc_pdf =
     Inr [Inr (Some ''The capital of Freedonia ''), Inr None, Inr (Some ''is Lastonia.'')] \<and>
   extract_pages [Inr (Some ''The capital of Freedonia ''), Inr None, Inr (Some ''is Lastonia.'')] [] =
     Inr ''The capital of Freedonia is Lastonia.'' \<and>
   fst (upload_pdf env_tag server_created ''s1'' doc_pdf) =
     Inr (Message ''PDF uploaded and processed for session s1'') \<and>
   disk (snd (upload_pdf env_tag server_created ''s1'' doc_pdf)) (index_path ''s1'') =
     Some (split_text env_tag 1000 200 ''The capital of Freedonia is Lastonia.'') \<and>
   split_text env_tag 1000 200 ''The capital of Freedonia is Lastonia.'' =
     [''1000'', ''200'', ''The capital of Freedonia is Lastonia.''] \<and>
   (\<forall>u. chop_marked 1000 200 u = split_text env_ok 1000 200 u) \<and>
   upload_pdf (env_ok\<lparr>split_text := chop_marked\<rparr>) server_created ''s1'' doc_pdf =
     upload_pdf env_ok server_created ''s1'' doc_pdf"
  using splitter_runs_at_1000_and_200
    [of doc_pdf "[Inr (Some ''The capital of Freedonia ''), Inr None, Inr (Some ''is Lastonia.'')]"
        "''The capital of Freedonia is Lastonia.''" env_tag server_created "''s1''"
        "Message ''PDF uploaded and processed for session s1''"]
    splitter_runs_at_1000_and_200
      [of doc_pdf _ _ env_ok server_created "''s1''" _ chop_marked]
  by (simp add: doc_pdf_eq upload_doc_tag env_tag_split_text env_ok_split_text
      chop_marked_default tag_split_def str_nat_1000 str_nat_200 index_path_def)

text \<open>
  The claim as first stated makes chunk length and overlap configuration options with
  defaults. No such option exists: an upload run with a splitter that records its
  settings stores 1000 and 200, and a splitter that behaves differently at every other
  setting gives the very same upload.
\<close>

theorem chunk_settings_are_not_configurable:
  "disk (snd (upload_pdf env_tag server_created ''s1'' doc_pdf)) (index_path ''s1'') =
     Some [''1000'', ''200'', ''The capital of Freedonia is Lastonia.''] \<and>
   chop_marked 500 50 ''The capital of Freedonia is Lastonia.'' = [''another setting''] \<and>
   chop 500 50 ''The capital of Freedonia is Lastonia.'' =
     [''The capital of Freedonia is Lastonia.''] \<and>
   upload_pdf (env_ok\<lparr>split_text := chop_marked\<rparr>) server_created ''s1'' doc_pdf =
     upload_pdf env_ok server_created ''s1'' doc_pdf"
proof -
  have "process_pdf_try (env_ok\<lparr>split_text := chop_marked\<rparr>) server_created doc_pdf ''s1'' =
        process_pdf_try env_ok server_created doc_pdf ''s1''"
    by (simp add: process_pdf_try_def chop_marked_default env_ok_split_text
        split: sum.splits option.splits save_result.splits)
  then have same: "process_pdf (env_ok\<lparr>split_text := chop_marked\<rparr>) server_created doc_pdf ''s1'' =
        process_pdf env_ok server_created doc_pdf ''s1''"
    by (simp add: process_pdf_def)
  have "upload_pdf (env_ok\<lparr>split_text := chop_marked\<rparr>) server_created ''s1'' doc_pdf =
     upload_pdf env_ok server_created ''s1'' doc_pdf"
    unfolding upload_pdf_def same by (rule refl)
  then show ?thesis
    by (simp add: upload_doc_tag index_path_def chop_marked_def chop.simps)
qed

subsection \<open>Queries against a missing index\<close>

lemma server_index_lost_eq:
  "server_index_lost =
     \<lparr>sessions = [\<lparr>session_id = ''s1'', pdf_processed = Some True, pdf_name = Some ''doc.pdf''\<rparr>],
      disk = Map.empty\<rparr>"
  by (simp add: server_index_lost_def server_processed_eq)

lemma ask_question_missing_index:
  assumes "find_one (sessions s) (q_session_id question) = Some session"
    and "pdf_processed session = Some True"
    and "disk s (index_path (q_session_id question)) = None"
  shows "ask_question env s question =
           Inl (HTTPException 500 ''Error answering question: 404: FAISS index not found'')"
  using assms by (simp add: ask_question_def ask_question_try_def str_nat_404)

text \<open>
  Claim C2 says that a query for a processed session whose index directory is absent is
  answered with 404. The source raises that \<open>HTTPException(status_code=404)\<close> inside the
  \<open>try\<close> block of \<open>ask_question\<close>, whose \<open>except Exception\<close> catches it and raises status
  500 in its place. Evaluated on a processed session whose directory is gone: the answer
  is 500, with the intended 404 quoted in its detail.
\<close>

theorem ask_without_index_is_answered_500:
  "find_one (sessions server_index_lost) (q_session_id capital_question) =
     Some \<lparr>session_id = ''s1'', pdf_processed = Some True, pdf_name = Some ''doc.pdf''\<rparr> \<and>
   disk server_index_lost (index_path (q_session_id capital_question)) = None \<and>
   ask_question ask_ok server_index_lost capital_question =
     Inl (HTTPException 500 ''Error answering question: 404: FAISS index not found'') \<and>
   http_status (ask_question ask_ok server_index_lost capital_question) = 500"
proof -
  have found: "find_one (sessions server_index_lost) (q_session_id capital_question) =
     Some \<lparr>session_id = ''s1'', pdf_processed = Some True, pdf_name = Some ''doc.pdf''\<rparr>"
    by (simp add: server_index_lost_eq capital_question_def)
  have lost: "disk server_index_lost (index_path (q_session_id capital_question)) = None"
    by (simp add: server_index_lost_eq)
  from ask_question_missing_index [OF found _ lost, of ask_ok] found lost
  show ?thesis by simp
qed

subsection \<open>Deleting sessions\<close>

lemma find_one_None_iff: "find_one ds sid = None \<longleftrightarrow> sid \<notin> session_id ` set ds"
  by (induction ds) auto

lemma delete_one_absent:
  "sid \<notin> session_id ` set ds \<Longrightarrow> delete_one ds sid = (0, ds)"
  by (induction ds) auto

lemma delete_one_present:
  "sid \<in> session_id ` set ds \<Longrightarrow> fst (delete_one ds sid) = 1"
  by (induction ds) (auto split: prod.splits)

lemma delete_one_subset: "set (snd (delete_one ds sid)) \<subseteq> set ds"
  by (induction ds) (auto split: prod.splits)

lemma delete_one_distinct:
  "distinct (map session_id ds) \<Longrightarrow>
     distinct (map session_id (snd (delete_one ds sid))) \<and>
     sid \<notin> session_id ` set (snd (delete_one ds sid))"
proof (induction ds)
  case Nil
  then show ?case by simp
next
  case (Cons d ds)
  show ?case
  proof (cases "session_id d = sid")
    case True
    with Cons.prems show ?thesis by auto
  next
    case False
    have "session_id d \<notin> session_id ` set (snd (delete_one ds sid))"
      using Cons.prems delete_one_subset [of ds sid] by auto
    with False Cons show ?thesis by (auto split: prod.splits)
  qed
qed


lemma delete_session_sessions:
  "sessions (snd (delete_session os_error s sid)) = snd (delete_one (sessions s) sid)"
  by (simp add: delete_session_def rmtree_def Let_def
      split: prod.splits option.splits exn.splits)

lemma delete_session_absent:
  "find_one (sessions s) sid = None \<Longrightarrow>
     delete_session os_error s sid = (Inl (HTTPException 404 ''Session not found''), s)"
  by (simp add: delete_session_def find_one_None_iff delete_one_absent)

lemma server_processed_unique: "unique_ids server_processed"
  by (simp add: unique_ids_def server_processed_eq)

text \<open>
  Claim C7, as amended. On a collection with one document per identifier that holds the
  record of a session, the first deletion removes the record. It returns its message when
  the index directory is absent or is removed; when \<open>rmtree\<close> is refused on an existing
  directory the exception leaves the handler and the call is answered with status 500.
  In every case a second deletion of the same identifier fails with 404
  "Session not found".
\<close>

theorem second_delete_is_not_found:
  assumes "unique_ids s" and "find_one (sessions s) sid \<noteq> None"
  shows "find_one (sessions (snd (delete_session e1 s sid))) sid = None \<and>
         (e1 = None \<or> disk s (index_path sid) = None \<longrightarrow>
            fst (delete_session e1 s sid) = Inr (Message (''Session '' @ sid @ '' deleted''))) \<and>
         (e1 = Some msg \<longrightarrow> disk s (index_path sid) \<noteq> None \<longrightarrow>
            fst (delete_session e1 s sid) = Inl (Exception msg)) \<and>
         fst (delete_session e2 (snd (delete_session e1 s sid)) sid) =
           Inl (HTTPException 404 ''Session not found'')"
proof -
  have gone: "find_one (sessions (snd (delete_session e1 s sid))) sid = None"
    using assms(1) delete_one_distinct [of "sessions s" sid]
    by (simp add: delete_session_sessions find_one_None_iff unique_ids_def)
  have count: "fst (delete_one (sessions s) sid) = 1"
    using assms(2) by (simp add: find_one_None_iff delete_one_present)
  have first: "fst (delete_session e1 s sid) = Inr (Message (''Session '' @ sid @ '' deleted''))"
    if "e1 = None \<or> disk s (index_path sid) = None"
    using that count
    by (auto simp: delete_session_def rmtree_def Let_def split: prod.splits option.splits)
  have refused: "fst (delete_session e1 s sid) = Inl (Exception msg)"
    if "e1 = Some msg" and "disk s (index_path sid) \<noteq> None"
    using that count
    by (auto simp: delete_session_def rmtree_def Let_def split: prod.splits option.splits)
  from gone first refused delete_session_absent [OF gone] show ?thesis by simp
qed

theorem second_delete_is_not_found_witness:
  "unique_ids server_processed \<and>
   find_one (sessions server_processed) ''s1'' \<noteq> None \<and>
   disk server_processed (index_path ''s1'') \<noteq> None \<and>
   find_one (sessions (snd (delete_session None server_processed ''s1''))) ''s1'' = None \<and>
   fst (delete_session None server_processed ''s1'') = Inr (Message ''Session s1 deleted'') \<and>
   fst (delete_session None (snd (delete_session None server_processed ''s1'')) ''s1'') =
     Inl (HTTPException 404 ''Session not found'') \<and>
   find_one (sessions (snd (delete_session (Some ''Permission denied'') server_processed ''s1'')))
     ''s1'' = None \<and>
   fst (delete_session (Some ''Permission denied'') server_processed ''s1'') =
     Inl (Exception ''Permission denied'') \<and>
   fst (delete_session None
         (snd (delete_session (Some ''Permission denied'') server_processed ''s1'')) ''s1'') =
     Inl (HTTPException 404 ''Session not found'')"
  using second_delete_is_not_found [of server_processed "''s1''" None "''none''" None]
    second_delete_is_not_found
      [of server_processed "''s1''" "Some ''Permission denied''" "''Permission denied''" None]
  by (simp add: server_processed_unique) (simp add: server_processed_eq index_path_def)

text \<open>
  The claim as first stated, that the first deletion succeeds, fails on a processed
  session whose directory \<open>rmtree\<close> may not remove: the record is deleted, and the first
  call is answered with status 500.
\<close>

theorem first_delete_can_be_answered_500:
  "unique_ids server_processed \<and>
   find_one (sessions server_processed) ''s1'' =
     Some \<lparr>session_id = ''s1'', pdf_processed = Some True, pdf_name = Some ''doc.pdf''\<rparr> \<and>
   fst (delete_session (Some ''Permission denied'') server_processed ''s1'') =
     Inl (Exception ''Permission denied'') \<and>
   http_status (fst (delete_session (Some ''Permission denied'') server_processed ''s1'')) = 500"
  by (simp add: server_processed_unique)
     (simp add: delete_session_def rmtree_def server_processed_eq index_path_def)

text \<open>
  Claim C5, as amended. Once the record is removed, a missing index directory is
  tolerated: the call succeeds. A directory that exists is removed and the call succeeds.
  Any other error of \<open>rmtree\<close> is not caught, since the handler names
  \<open>FileNotFoundError\<close> only: the exception leaves \<open>delete_session\<close>, the directory stays,
  and the record is gone all the same.
\<close>

theorem delete_session_rmtree_outcomes:
  assumes "fst (delete_one (sessions s) sid) \<noteq> 0"
  shows "sessions (snd (delete_session os_error s sid)) = snd (delete_one (sessions s) sid) \<and>
         (disk s (index_path sid) = None \<longrightarrow>
            delete_session os_error s sid =
              (Inr (Message (''Session '' @ sid @ '' deleted'')),
               s\<lparr>sessions := snd (delete_one (sessions s) sid)\<rparr>)) \<and>
         (disk s (index_path sid) \<noteq> None \<longrightarrow> os_error = None \<longrightarrow>
            delete_session os_error s sid =
              (Inr (Message (''Session '' @ sid @ '' deleted'')),
               \<lparr>sessions = snd (delete_one (sessions s) sid),
                disk = (disk s)(index_path sid := None)\<rparr>)) \<and>
         (disk s (index_path sid) \<noteq> None \<longrightarrow> os_error = Some msg \<longrightarrow>
            delete_session os_error s sid =
              (Inl (Exception msg), s\<lparr>sessions := snd (delete_one (sessions s) sid)\<rparr>))"
  using assms
  by (auto simp: delete_session_def rmtree_def Let_def split: prod.splits option.splits)

theorem delete_session_rmtree_outcomes_witness:
  "fst (delete_one (sessions server_processed) ''s1'') \<noteq> 0 \<and>
   disk server_processed (index_path ''s1'') \<noteq> None \<and>
   delete_session None server_processed ''s1'' =
     (Inr (Message ''Session s1 deleted''), \<lparr>sessions = [], disk = Map.empty\<rparr>) \<and>
   delete_session (Some ''Permission denied'') server_processed ''s1'' =
     (Inl (Exception ''Permission denied''), server_processed\<lparr>sessions := []\<rparr>) \<and>
   fst (delete_one (sessions server_created) ''s1'') \<noteq> 0 \<and>
   disk server_created (index_path ''s1'') = None \<and>
   delete_session (Some ''Permission denied'') server_created ''s1'' =
     (Inr (Message ''Session s1 deleted''), \<lparr>sessions = [], disk = Map.empty\<rparr>)"
  using delete_session_rmtree_outcomes [of server_processed "''s1''" None]
    delete_session_rmtree_outcomes
      [of server_processed "''s1''" "Some ''Permission denied''" "''Permission denied''"]
    delete_session_rmtree_outcomes
      [of server_created "''s1''" "Some ''Permission denied''"]
  by (simp add: server_processed_eq server_created_eq index_path_def)

text \<open>
  The claim as first stated, that no deletion error reaches the caller, fails when
  \<open>rmtree\<close> is refused on an existing directory: the record is removed and the caller is
  answered with status 500.
\<close>

theorem delete_session_rmtree_error_surfaces:
  "fst (delete_one (sessions server_processed) ''s1'') = 1 \<and>
   fst (delete_session (Some ''Permission denied'') server_processed ''s1'') =
     Inl (Exception ''Permission denied'') \<and>
   http_status (fst (delete_session (Some ''Permission denied'') server_processed ''s1'')) = 500 \<and>
   sessions (snd (delete_session (Some ''Permission denied'') server_processed ''s1'')) = []"
  by (simp add: delete_session_def rmtree_def server_processed_eq index_path_def)

subsection \<open>The invariant under the four operations\<close>














end
